theory Spec2Isabelle
  imports Complex_Main
begin

section \<open>Python values, errors and item records\<close>

text \<open>
  The module \<^verbatim>\<open>psychopy/visual/form.py\<close> is embedded function by function.
  Python floats are idealised as \<^typ>\<open>real\<close>; attributes hold the values that the
  constructor assigns to them, and a division by zero raises, as it does for Python
  numbers. Strings are byte lists. Every exception that a statement of the module can
  raise is a value \<open>Inl e\<close> of the result type.
\<close>

datatype pyval = PStr string | PNum real | PList "string list"

datatype error =
    NameError | ValueError | TypeError | OSError | KeyError | AttributeError
  | UnboundLocalError | ZeroDivisionError | IndexError

text \<open>Sequencing of fallible steps: the first exception ends the computation.\<close>

definition bind :: "error + 'a \<Rightarrow> ('a \<Rightarrow> error + 'b) \<Rightarrow> error + 'b" where
  "bind m k = (case m of Inl e \<Rightarrow> Inl e | Inr x \<Rightarrow> k x)"

text \<open>A \<^verbatim>\<open>for\<close> loop whose body may raise, threading the state through.\<close>

fun forEach :: "('a \<Rightarrow> 's \<Rightarrow> error + 's) \<Rightarrow> 'a list \<Rightarrow> 's \<Rightarrow> error + 's" where
  "forEach body [] s = Inr s"
| "forEach body (x # xs) s = bind (body x s) (forEach body xs)"

text \<open>
  A dict is an association list; \<open>d[k]\<close> raises \<open>KeyError\<close> on a missing key and
  \<open>d.keys()\<close> lists the keys.
\<close>

type_synonym item = "(string \<times> pyval) list"

definition keys :: "item \<Rightarrow> string list" where
  "keys d = map fst d"

definition getitem :: "item \<Rightarrow> string \<Rightarrow> error + pyval" where
  "getitem d k = (case map_of d k of None \<Rightarrow> Inl KeyError | Some v \<Rightarrow> Inr v)"

text \<open>\<open>len(v)\<close>: a number has no length.\<close>

fun py_len :: "pyval \<Rightarrow> error + nat" where
  "py_len (PStr s) = Inr (length s)"
| "py_len (PList xs) = Inr (length xs)"
| "py_len (PNum r) = Inl TypeError"

text \<open>\<open>v * x\<close> for a float \<open>x\<close>: a string or a list cannot be multiplied by a float.\<close>

fun py_mul :: "pyval \<Rightarrow> real \<Rightarrow> error + real" where
  "py_mul (PNum r) x = Inr (r * x)"
| "py_mul (PStr s) x = Inl TypeError"
| "py_mul (PList xs) x = Inl TypeError"

text \<open>\<open>s.lower()\<close> on ASCII letters; only a string has the method.\<close>

definition lower_char :: "char \<Rightarrow> char" where
  "lower_char c =
     (case map_of (zip ''ABCDEFGHIJKLMNOPQRSTUVWXYZ'' ''abcdefghijklmnopqrstuvwxyz'') c of
        None \<Rightarrow> c
      | Some l \<Rightarrow> l)"

fun py_lower :: "pyval \<Rightarrow> error + string" where
  "py_lower (PStr s) = Inr (map lower_char s)"
| "py_lower (PNum r) = Inl AttributeError"
| "py_lower (PList xs) = Inl AttributeError"

text \<open>\<open>sub in s\<close> for strings: \<open>sub\<close> occurs as a contiguous part of \<open>s\<close>.\<close>

fun str_in :: "string \<Rightarrow> string \<Rightarrow> bool" where
  "str_in sub [] = (sub = [])"
| "str_in sub (c # cs) = (take (length sub) (c # cs) = sub \<or> str_in sub cs)"

text \<open>\<open>s.split(',')\<close>.\<close>

fun split_comma :: "string \<Rightarrow> string list" where
  "split_comma [] = [[]]"
| "split_comma (c # cs) =
     (if c = CHR '','' then [] # split_comma cs
      else (case split_comma cs of [] \<Rightarrow> [[c]] | w # ws \<Rightarrow> (c # w) # ws))"

section \<open>Item import\<close>

definition surveyFields :: "string list" where
  "surveyFields = [''aWidth'', ''aLayout'', ''qText'', ''aType'', ''qWidth'', ''aOptions'']"

definition checkOptions :: "pyval \<Rightarrow> error + unit" where
  "checkOptions options =
     bind (py_len options) (\<lambda>n. if \<not> n > 1 then Inl ValueError else Inr ())"

definition checkHeaders :: "string list \<Rightarrow> error + unit" where
  "checkHeaders fields =
     (if \<not> set surveyFields = set fields then Inl NameError else Inr ())"

text \<open>The two checks that the loop of \<open>importItems\<close> applies to one dict.\<close>

definition checkDict :: "item \<Rightarrow> error + unit" where
  "checkDict d =
     bind (checkHeaders (keys d)) (\<lambda>_.
     bind (getitem d ''aOptions'') checkOptions)"

text \<open>
  The file branch goes through the operating system and the pandas library. The test
  whether a path exists and the two readers are parameters. A data frame is its column
  names and its rows, a missing cell being \<open>None\<close>; \<open>dropna\<close> removes the rows with a
  missing cell, and the transposed frame's \<open>to_dict().values()\<close> lists one dict for each
  row, in row order.
\<close>

record dataframe =
  columns :: "string list"
  rows :: "pyval option list list"

record files =
  path_exists :: "string \<Rightarrow> bool"
  read_csv :: "string \<Rightarrow> error + dataframe"
  read_excel :: "string \<Rightarrow> error + dataframe"

definition dropna :: "dataframe \<Rightarrow> dataframe" where
  "dropna df = df\<lparr>rows := filter (\<lambda>r. None \<notin> set r) (rows df)\<rparr>"

text \<open>A row as a dict from column name to cell (the cells that are present).\<close>

definition row_dict :: "string list \<Rightarrow> pyval option list \<Rightarrow> item" where
  "row_dict cols r = concat (map (\<lambda>(k, c). case c of None \<Rightarrow> [] | Some v \<Rightarrow> [(k, v)]) (zip cols r))"

definition to_dicts :: "dataframe \<Rightarrow> item list" where
  "to_dicts df = map (row_dict (columns df)) (rows df)"

text \<open>\<open>newItems['aOptions'].str.split(',')\<close>: string cells of that column are split.\<close>

fun split_cell :: "string \<times> pyval \<Rightarrow> string \<times> pyval" where
  "split_cell (k, PStr s) = (if k = ''aOptions'' then (k, PList (split_comma s)) else (k, PStr s))"
| "split_cell (k, v) = (k, v)"

definition split_options :: "item list \<Rightarrow> item list" where
  "split_options ds = map (map split_cell) ds"

datatype items_arg = ItemList "item list" | ItemDict item | ItemPath string

definition importTable :: "dataframe \<Rightarrow> error + item list" where
  "importTable df =
     (let newItems = dropna df in
      bind (checkHeaders (columns newItems)) (\<lambda>_.
      let ds = split_options (to_dicts newItems) in
      bind (forEach (\<lambda>d u. bind (getitem d ''aOptions'') checkOptions) ds ()) (\<lambda>_.
      Inr ds)))"

fun importItems :: "files \<Rightarrow> items_arg \<Rightarrow> error + item list" where
  "importItems fs (ItemList ds) =
     bind (forEach (\<lambda>d u. checkDict d) ds ()) (\<lambda>_. Inr ds)"
| "importItems fs (ItemDict d) =
     bind (checkDict d) (\<lambda>_. Inr [d])"
| "importItems fs (ItemPath p) =
     (if path_exists fs p then
        (if str_in ''.csv'' p then bind (read_csv fs p) importTable
         else if str_in ''.xlsx'' p \<or> str_in ''.xls'' p then bind (read_excel fs p) importTable
         else Inl TypeError)
      else Inl OSError)"

section \<open>The widgets of the toolkit\<close>

text \<open>
  Windows, text stimuli, sliders, rectangles and apertures are classes of the toolkit
  that the module imports; their code is not part of the module. Each is the record of
  the arguments that the module passes to its constructor, together with the attributes
  that the module reads or assigns afterwards.
\<close>

text \<open>
  Modelled from the spec: the window, which is missing from the sources, exposes its pixel
  dimensions; the bounding box that the renderer finds for a text of a given height and
  wrap width is a function the window carries.
\<close>

record window =
  win_size :: "real \<times> real"
  win_boundingBox :: "pyval \<Rightarrow> real \<Rightarrow> real \<Rightarrow> real \<times> real"

text \<open>
  Modelled from the spec: the text drawable (\<open>psychopy.visual.TextStim\<close>), which is
  missing from the sources, is created from a text, a wrap width, a height and an
  alignment, has a bounding box that can be queried and a position that can be assigned.
\<close>

record textstim =
  ts_text :: pyval
  ts_units :: string
  ts_height :: real
  ts_alignHoriz :: string
  ts_wrapWidth :: real
  ts_pos :: "real \<times> real"
  ts_boundingBox :: "real \<times> real"

definition TextStim ::
  "window \<Rightarrow> pyval \<Rightarrow> string \<Rightarrow> real \<Rightarrow> string \<Rightarrow> real \<Rightarrow> textstim" where
  "TextStim w txt un h al wrap =
     \<lparr>ts_text = txt, ts_units = un, ts_height = h, ts_alignHoriz = al, ts_wrapWidth = wrap,
      ts_pos = (0, 0), ts_boundingBox = win_boundingBox w txt h wrap\<rparr>"

text \<open>
  Modelled from the spec: the slider control (\<open>psychopy.visual.Slider\<close>), which is
  missing from the sources, is created from a style, ticks, labels, a size and a
  position, and exposes a position that can be assigned, a marker position, a rating and
  a response time; the rating and the response time are the null value as long as the
  control is unanswered, as it is when it has just been created. An argument that the
  module does not pass is \<open>None\<close>.
\<close>

record slider =
  sl_pos :: "real \<times> real"
  sl_size :: "real \<times> real"
  sl_ticks :: "real list option"
  sl_labels :: "pyval option"
  sl_units :: "string option"
  sl_labelHeight :: "real option"
  sl_style :: "string option"
  sl_flip :: bool
  sl_markerPos :: "real option"
  sl_rating :: "real option"
  sl_rt :: "real option"

definition Slider ::
  "(real \<times> real) \<Rightarrow> (real \<times> real) \<Rightarrow> real list option \<Rightarrow> pyval option \<Rightarrow> string option \<Rightarrow>
   real option \<Rightarrow> string option \<Rightarrow> bool \<Rightarrow> slider" where
  "Slider p sz tk lb un lh st fl =
     \<lparr>sl_pos = p, sl_size = sz, sl_ticks = tk, sl_labels = lb, sl_units = un,
      sl_labelHeight = lh, sl_style = st, sl_flip = fl,
      sl_markerPos = None, sl_rating = None, sl_rt = None\<rparr>"

text \<open>Modelled from the spec: \<open>getRating\<close> and \<open>getRT\<close> read the control's state.\<close>

definition getRating :: "slider \<Rightarrow> real option" where
  "getRating s = sl_rating s"

definition getRT :: "slider \<Rightarrow> real option" where
  "getRT s = sl_rt s"

text \<open>
  Modelled from the spec: the rectangle outline and the clip region, which are missing
  from the sources, are created from a size and a position (and a shape).
\<close>

record rect =
  rect_units :: string
  rect_pos :: "real \<times> real"
  rect_width :: real
  rect_height :: real

record aperture =
  ap_name :: string
  ap_units :: string
  ap_shape :: string
  ap_size :: "real \<times> real"
  ap_pos :: "real \<times> real"

section \<open>The form\<close>

text \<open>
  The attributes of a \<open>Form\<close> object. \<open>_items['question']\<close> and
  \<open>_items['response']\<close> are the fields \<open>questions\<close> and \<open>responses\<close>. An
  attribute that \<open>__init__\<close> sets to \<open>None\<close>, or that only \<open>_doLayout\<close> creates,
  is an option. The attribute \<open>size\<close> is the field \<open>sizeF\<close>, and the names of the
  module lose their leading underscore.
\<close>

record form =
  win :: window
  name :: string
  items :: "item list"
  sizeF :: "real \<times> real"
  pos :: "real \<times> real"
  itemPadding :: real
  units :: string
  labelHeight :: real
  textHeight :: real
  questions :: "textstim list"
  responses :: "slider list"
  baseYpositions :: "real list"
  leftEdge :: "real option"
  rightEdge :: "real option"
  topEdge :: "real option"
  virtualHeight :: real
  scrollOffset :: real
  scrollbar :: "slider option"
  border :: "rect option"
  aperture :: "aperture option"

text \<open>\<open>a / b\<close> on Python numbers.\<close>

definition py_div :: "real \<Rightarrow> real \<Rightarrow> error + real" where
  "py_div a b = (if b = 0 then Inl ZeroDivisionError else Inr (a / b))"

text \<open>Arithmetic on an attribute that is still \<open>None\<close> is a \<open>TypeError\<close>.\<close>

definition num :: "real option \<Rightarrow> error + real" where
  "num v = (case v of None \<Rightarrow> Inl TypeError | Some r \<Rightarrow> Inr r)"

text \<open>Reading a local variable that no branch has assigned is an \<open>UnboundLocalError\<close>.\<close>

definition local_var :: "'a option \<Rightarrow> error + 'a" where
  "local_var v = (case v of None \<Rightarrow> Inl UnboundLocalError | Some x \<Rightarrow> Inr x)"

text \<open>Reading an attribute that has not been created is an \<open>AttributeError\<close>.\<close>

definition attr :: "'a option \<Rightarrow> error + 'a" where
  "attr v = (case v of None \<Rightarrow> Inl AttributeError | Some x \<Rightarrow> Inr x)"


definition getQuestionHeight :: "form \<Rightarrow> textstim \<Rightarrow> error + real" where
  "getQuestionHeight f question =
     py_div (snd (ts_boundingBox question)) (snd (win_size (win f)) / 2)"

definition getQuestionWidth :: "form \<Rightarrow> textstim \<Rightarrow> error + real" where
  "getQuestionWidth f question =
     py_div (fst (ts_boundingBox question)) (fst (win_size (win f)) / 2)"

text \<open>
  \<open>_setQuestion\<close> appends the new text stimulus to \<open>_items['question']\<close> and returns
  it with its measured height and width.
\<close>

definition setQuestion :: "form \<Rightarrow> item \<Rightarrow> error + (form \<times> textstim \<times> real \<times> real)" where
  "setQuestion f item =
     bind (getitem item ''qText'') (\<lambda>txt.
     bind (getitem item ''qWidth'') (\<lambda>qw.
     bind (py_mul qw (fst (sizeF f))) (\<lambda>wrap.
     let question = TextStim (win f) txt (units f) (textHeight f) ''left'' wrap in
     bind (getQuestionHeight f question) (\<lambda>qHeight.
     bind (getQuestionWidth f question) (\<lambda>qWidth.
     Inr (f\<lparr>questions := questions f @ [question]\<rparr>, question, qHeight, qWidth))))))"

text \<open>
  \<open>getRespHeight\<close>: when the layout is neither \<open>'vert'\<close> nor \<open>'horiz'\<close> the local
  \<open>aHeight\<close> is never assigned and \<open>return aHeight\<close> raises.
\<close>

definition getRespHeight :: "form \<Rightarrow> item \<Rightarrow> error + real" where
  "getRespHeight f item =
     bind (getitem item ''aLayout'') (\<lambda>lay.
     if lay = PStr ''vert'' then
       bind (getitem item ''aOptions'') (\<lambda>opts.
       bind (py_len opts) (\<lambda>n. Inr (real n * textHeight f)))
     else if lay = PStr ''horiz'' then Inr (textHeight f)
     else Inl UnboundLocalError)"

text \<open>
  \<open>_setResponse\<close>. The locals \<open>aSize\<close> and \<open>resp\<close> are options: \<open>None\<close> is a local
  that no branch has assigned.
\<close>

definition setResponse :: "form \<Rightarrow> item \<Rightarrow> textstim \<Rightarrow> error + (form \<times> slider \<times> real)" where
  "setResponse f item question =
     bind (getitem item ''aWidth'') (\<lambda>aw.
     bind (py_mul aw (fst (sizeF f))) (\<lambda>w.
     bind (num (rightEdge f)) (\<lambda>re.
     let p = (re - w, snd (ts_pos question)) in
     bind (getRespHeight f item) (\<lambda>aHeight.
     bind (getitem item ''aLayout'') (\<lambda>lay.
     bind (if lay = PStr ''horiz'' then
             bind (getitem item ''aWidth'') (\<lambda>aw'.
             bind (py_mul aw' (fst (sizeF f))) (\<lambda>w'. Inr (Some (w', 0.03))))
           else if lay = PStr ''vert'' then Inr (Some (0.03, aHeight))
           else Inr None) (\<lambda>aSize.
     bind (getitem item ''aType'') (\<lambda>ty.
     bind (py_lower ty) (\<lambda>lty.
     bind (if lty \<in> set [''rating'', ''slider''] then
             bind (getitem item ''aWidth'') (\<lambda>aw'.
             bind (py_mul aw' (fst (sizeF f))) (\<lambda>w'.
             bind (getitem item ''aOptions'') (\<lambda>opts.
             Inr (Some (Slider p (w', 0.03) (Some [0, 1]) (Some opts) (Some (units f))
                          (Some (labelHeight f)) None True)))))
           else if lty \<in> set [''choice''] then
             bind (local_var aSize) (\<lambda>sz.
             bind (getitem item ''aOptions'') (\<lambda>opts.
             Inr (Some (Slider p sz None (Some opts) (Some (units f))
                          (Some (textHeight f)) (Some ''radio'') True))))
           else Inr None) (\<lambda>resp.
     bind (local_var resp) (\<lambda>r.
     Inr (f\<lparr>responses := responses f @ [r]\<rparr>, r, aHeight)))))))))))"

definition setScrollBar :: "form \<Rightarrow> error + slider" where
  "setScrollBar f =
     bind (num (rightEdge f)) (\<lambda>re.
     Inr (Slider (re, snd (pos f)) (0.03, snd (sizeF f)) (Some [0, 1]) None None None
            (Some ''slider'') False))"

definition setBorder :: "form \<Rightarrow> rect" where
  "setBorder f =
     \<lparr>rect_units = units f, rect_pos = pos f,
      rect_width = fst (sizeF f), rect_height = snd (sizeF f)\<rparr>"

definition setAperture :: "form \<Rightarrow> aperture" where
  "setAperture f =
     \<lparr>ap_name = ''aperture'', ap_units = units f, ap_shape = ''square'', ap_size = sizeF f,
      ap_pos = (0, 0)\<rparr>"

text \<open>
  One turn of the loop of \<open>_doLayout\<close>. The question that \<open>_setQuestion\<close> has just
  appended is the object whose \<open>pos\<close> is assigned next, so the assignment changes the
  last entry of \<open>questions\<close>.
\<close>

definition layoutItem :: "item \<Rightarrow> form \<Rightarrow> error + form" where
  "layoutItem item f =
     bind (setQuestion f item) (\<lambda>(f1, question, qHeight, qWidth).
     bind (num (leftEdge f1)) (\<lambda>le.
     bind (num (topEdge f1)) (\<lambda>te.
     let question' = question\<lparr>ts_pos := (le, te + virtualHeight f1 - qHeight / 2 - itemPadding f1)\<rparr>;
         f2 = f1\<lparr>questions := butlast (questions f1) @ [question']\<rparr> in
     bind (setResponse f2 item question') (\<lambda>(f3, response, aHeight).
     let f4 = f3\<lparr>baseYpositions := baseYpositions f3 @
                   [virtualHeight f3 - max aHeight qHeight + (aHeight / 2) - textHeight f3]\<rparr> in
     Inr (f4\<lparr>virtualHeight := virtualHeight f4 - (max aHeight qHeight + itemPadding f4)\<rparr>)))))"

definition doLayout :: "form \<Rightarrow> error + form" where
  "doLayout f =
     (let f1 = f\<lparr>leftEdge := Some (fst (pos f) - fst (sizeF f) / 2.0)\<rparr>;
          f2 = f1\<lparr>rightEdge := Some (fst (pos f1) + fst (sizeF f1) / 2.0)\<rparr>;
          f3 = f2\<lparr>topEdge := Some (snd (pos f2) + snd (sizeF f2) / 2.0)\<rparr> in
      bind (forEach layoutItem (items f3) f3) (\<lambda>f4.
      bind (setScrollBar f4) (\<lambda>sb.
      let f5 = f4\<lparr>scrollbar := Some (sb\<lparr>sl_markerPos := Some 1\<rparr>)\<rparr>;
          f6 = f5\<lparr>border := Some (setBorder f5)\<rparr> in
      Inr (f6\<lparr>aperture := Some (setAperture f6)\<rparr>))))"

text \<open>\<open>Form.__init__\<close>; the last argument is the file system that \<open>importItems\<close> sees.\<close>

definition Form ::
  "window \<Rightarrow> string \<Rightarrow> items_arg \<Rightarrow> real \<Rightarrow> (real \<times> real) \<Rightarrow> (real \<times> real) \<Rightarrow> real \<Rightarrow> string \<Rightarrow>
   files \<Rightarrow> error + form" where
  "Form w nm its th sz ps pad un fs =
     bind (importItems fs its) (\<lambda>ds.
     doLayout
       \<lparr>win = w, name = nm, items = ds, sizeF = sz, pos = ps, itemPadding = pad, units = un,
        labelHeight = 0.02, textHeight = th, questions = [], responses = [],
        baseYpositions = [], leftEdge = None, rightEdge = None, topEdge = None,
        virtualHeight = 0, scrollOffset = 0, scrollbar = None, border = None,
        aperture = None\<rparr>)"

section \<open>Scrolling and drawing\<close>

text \<open>\<open>min(xs)\<close> raises \<open>ValueError\<close> on an empty list.\<close>

definition py_min :: "real list \<Rightarrow> error + real" where
  "py_min xs = (case xs of [] \<Rightarrow> Inl ValueError | x # ys \<Rightarrow> Inr (fold min ys x))"

definition getScrollOffet :: "form \<Rightarrow> error + real" where
  "getScrollOffet f =
     bind (attr (scrollbar f)) (\<lambda>sb.
     bind (num (sl_markerPos sb)) (\<lambda>markerPos.
     let sizeOffset = (1 - markerPos) * (snd (sizeF f) - itemPadding f) in
     bind (py_min (baseYpositions f)) (\<lambda>maxItemPos.
     Inr (maxItemPos - (markerPos * maxItemPos) + sizeOffset))))"

definition inRange :: "form \<Rightarrow> (real \<times> real) \<Rightarrow> bool" where
  "inRange f p =
     (let upperRange = snd (sizeF f) / 2;
          lowerRange = - snd (sizeF f) / 2
      in snd p < upperRange \<and> snd p > lowerRange)"





section \<open>Collecting the answers\<close>

record formData =
  fd_questions :: "pyval list"
  fd_ratings :: "real option list"
  fd_rt :: "real option list"

definition getData :: "form \<Rightarrow> formData" where
  "getData f =
     \<lparr>fd_questions = map ts_text (questions f),
      fd_ratings = map getRating (responses f),
      fd_rt = map getRT (responses f)\<rparr>"

definition formComplete :: "form \<Rightarrow> bool" where
  "formComplete f = (None \<notin> set (fd_ratings (getData f)))"

section \<open>Properties of item records\<close>

text \<open>
  Predicates on one record, for stating what \<open>importItems\<close> and the layout pass do with
  it: the number of its answer options (when it has that field and the field has a
  length), whether it passes both checks of the import, whether its answer type and its
  answer layout are among those the layout pass knows, and whether its widths are numbers
  and its answer type a string.
\<close>

definition optionCount :: "item \<Rightarrow> nat option" where
  "optionCount d =
     (case map_of d ''aOptions'' of
        None \<Rightarrow> None
      | Some v \<Rightarrow> (case py_len v of Inl e \<Rightarrow> None | Inr n \<Rightarrow> Some n))"

definition accepted :: "item \<Rightarrow> bool" where
  "accepted d =
     (set (keys d) = set surveyFields
      \<and> (case optionCount d of None \<Rightarrow> False | Some n \<Rightarrow> 1 < n))"

definition knownType :: "item \<Rightarrow> bool" where
  "knownType d =
     (case map_of d ''aType'' of
        Some (PStr s) \<Rightarrow> map lower_char s \<in> set [''rating'', ''slider'', ''choice'']
      | _ \<Rightarrow> False)"

definition knownLayout :: "item \<Rightarrow> bool" where
  "knownLayout d =
     (map_of d ''aLayout'' = Some (PStr ''horiz'') \<or> map_of d ''aLayout'' = Some (PStr ''vert''))"

definition typedItem :: "item \<Rightarrow> bool" where
  "typedItem d =
     ((case map_of d ''qWidth'' of Some (PNum r) \<Rightarrow> True | _ \<Rightarrow> False)
      \<and> (case map_of d ''aWidth'' of Some (PNum r) \<Rightarrow> True | _ \<Rightarrow> False)
      \<and> (case map_of d ''aType'' of Some (PStr s) \<Rightarrow> True | _ \<Rightarrow> False))"

section \<open>Example inputs\<close>

text \<open>
  A window of 800 by 600 pixels in which every question measures 200 by 30 pixels, a file
  system without files, and the forms that the constructor builds from a few item lists.
\<close>

definition win0 :: window where
  "win0 = \<lparr>win_size = (800, 600), win_boundingBox = (\<lambda>t h w. (200, 30))\<rparr>"

definition fs0 :: files where
  "fs0 = \<lparr>path_exists = (\<lambda>p. False), read_csv = (\<lambda>p. Inl OSError), read_excel = (\<lambda>p. Inl OSError)\<rparr>"

definition item1 :: item where
  "item1 = [(''aWidth'', PNum 0.3), (''aLayout'', PStr ''vert''), (''qText'', PStr ''Like cats?''),
            (''aType'', PStr ''choice''), (''qWidth'', PNum 0.7), (''aOptions'', PList [''Yes'', ''No''])]"

definition item_rv :: item where
  "item_rv = [(''aWidth'', PNum 0.3), (''aLayout'', PStr ''vert''), (''qText'', PStr ''Like cake?''),
            (''aType'', PStr ''rating''), (''qWidth'', PNum 0.7), (''aOptions'', PList [''Lots'', ''Not a lot''])]"

definition scrollbar0 :: slider where
  "scrollbar0 =
     \<lparr>sl_pos = (1 / 2, 0), sl_size = (3 / 100, 7 / 10), sl_ticks = Some [0, 1],
      sl_labels = None, sl_units = None, sl_labelHeight = None, sl_style = Some ''slider'',
      sl_flip = False, sl_markerPos = Some 1, sl_rating = None, sl_rt = None\<rparr>"

definition border0 :: rect where
  "border0 = \<lparr>rect_units = ''height'', rect_pos = (0, 0), rect_width = 1, rect_height = 7 / 10\<rparr>"

definition aperture0 :: aperture where
  "aperture0 = \<lparr>ap_name = ''aperture'', ap_units = ''height'', ap_shape = ''square'', ap_size = (1, 7 / 10), ap_pos = (0, 0)\<rparr>"

definition form_empty :: form where
  "form_empty =
     \<lparr>win = win0, name = ''default'', items = [], sizeF = (1, 7 / 10), pos = (0, 0),
      itemPadding = 1 / 20, units = ''height'', labelHeight = 1 / 50, textHeight = 3 / 100,
      questions = [], responses = [], baseYpositions = [],
      leftEdge = Some (- (1 / 2)), rightEdge = Some (1 / 2), topEdge = Some (7 / 20),
      virtualHeight = 0, scrollOffset = 0, scrollbar = Some scrollbar0,
      border = Some border0, aperture = Some aperture0\<rparr>"

definition question1 :: textstim where
  "question1 =
     \<lparr>ts_text = PStr ''Like cats?'', ts_units = ''height'', ts_height = 3 / 100,
      ts_alignHoriz = ''left'', ts_wrapWidth = 7 / 10, ts_pos = (- (1 / 2), 1 / 4), ts_boundingBox = (200, 30)\<rparr>"

definition response1 :: slider where
  "response1 =
     \<lparr>sl_pos = (1 / 5, 1 / 4), sl_size = (3 / 100, 3 / 50), sl_ticks = None,
      sl_labels = Some (PList [''Yes'', ''No'']), sl_units = Some ''height'',
      sl_labelHeight = Some (3 / 100), sl_style = Some ''radio'', sl_flip = True,
      sl_markerPos = None, sl_rating = None, sl_rt = None\<rparr>"

definition form1 :: form where
  "form1 =
     \<lparr>win = win0, name = ''survey'', items = [item1], sizeF = (1, 7 / 10), pos = (0, 0),
      itemPadding = 1 / 20, units = ''height'', labelHeight = 1 / 50, textHeight = 3 / 100,
      questions = [question1], responses = [response1], baseYpositions = [- (1 / 10)],
      leftEdge = Some (- (1 / 2)), rightEdge = Some (1 / 2), topEdge = Some (7 / 20),
      virtualHeight = - (3 / 20), scrollOffset = 0, scrollbar = Some scrollbar0,
      border = Some border0, aperture = Some aperture0\<rparr>"

definition response_rv :: slider where
  "response_rv =
     \<lparr>sl_pos = (1 / 5, 1 / 4), sl_size = (3 / 10, 3 / 100), sl_ticks = Some [0, 1],
      sl_labels = Some (PList [''Lots'', ''Not a lot'']), sl_units = Some ''height'',
      sl_labelHeight = Some (1 / 50), sl_style = None, sl_flip = True,
      sl_markerPos = None, sl_rating = None, sl_rt = None\<rparr>"

definition form_rv :: form where
  "form_rv =
     \<lparr>win = win0, name = ''survey'', items = [item_rv], sizeF = (1, 7 / 10), pos = (0, 0),
      itemPadding = 1 / 20, units = ''height'', labelHeight = 1 / 50, textHeight = 3 / 100,
      questions = [question1\<lparr>ts_text := PStr ''Like cake?''\<rparr>], responses = [response_rv],
      baseYpositions = [- (1 / 10)],
      leftEdge = Some (- (1 / 2)), rightEdge = Some (1 / 2), topEdge = Some (7 / 20),
      virtualHeight = - (3 / 20), scrollOffset = 0, scrollbar = Some scrollbar0,
      border = Some border0, aperture = Some aperture0\<rparr>"

definition form2 :: form where
  "form2 =
     \<lparr>win = win0, name = ''survey'', items = [item_rv, item1], sizeF = (1, 1 / 5), pos = (0, 0),
      itemPadding = 1 / 20, units = ''height'', labelHeight = 1 / 50, textHeight = 3 / 100,
      questions = [question1\<lparr>ts_text := PStr ''Like cake?'', ts_pos := (- (1 / 2), 0)\<rparr>,
                   question1\<lparr>ts_pos := (- (1 / 2), - (3 / 20))\<rparr>],
      responses = [response_rv\<lparr>sl_pos := (1 / 5, 0)\<rparr>,
                   response1\<lparr>sl_pos := (1 / 5, - (3 / 20))\<rparr>],
      baseYpositions = [- (1 / 10), - (1 / 4)],
      leftEdge = Some (- (1 / 2)), rightEdge = Some (1 / 2), topEdge = Some (1 / 10),
      virtualHeight = - (3 / 10), scrollOffset = 0,
      scrollbar = Some (scrollbar0\<lparr>sl_size := (3 / 100, 1 / 5)\<rparr>),
      border = Some (border0\<lparr>rect_height := 1 / 5\<rparr>),
      aperture = Some (aperture0\<lparr>ap_size := (1, 1 / 5)\<rparr>)\<rparr>"

text \<open>Records that the import or the layout pass rejects.\<close>

definition item_nofield :: item where
  "item_nofield =
     [(''aWidth'', PNum 0.3), (''aLayout'', PStr ''vert''), (''qText'', PStr ''Like cats?''),
      (''aType'', PStr ''choice''), (''qWidth'', PNum 0.7)]"

definition item_short :: item where
  "item_short =
     [(''aWidth'', PNum 0.3), (''aLayout'', PStr ''vert''), (''qText'', PStr ''Like cats?''),
      (''aType'', PStr ''choice''), (''qWidth'', PNum 0.7), (''aOptions'', PList [''only-one''])]"

definition item_badtype :: item where
  "item_badtype =
     [(''aWidth'', PNum 0.3), (''aLayout'', PStr ''horiz''), (''qText'', PStr ''Any comments?''),
      (''aType'', PStr ''textbox''), (''qWidth'', PNum 0.7), (''aOptions'', PList [''Yes'', ''No''])]"

definition item_badlayout :: item where
  "item_badlayout =
     [(''aWidth'', PNum 0.3), (''aLayout'', PStr ''Horiz''), (''qText'', PStr ''Like cats?''),
      (''aType'', PStr ''Choice''), (''qWidth'', PNum 0.7), (''aOptions'', PList [''Yes'', ''No''])]"

text \<open>
  A file system whose only file is \<^verbatim>\<open>notes.csv.txt\<close>, a text file of one data row
  under the six column names.
\<close>

definition table1 :: dataframe where
  "table1 =
     \<lparr>columns = [''aWidth'', ''aLayout'', ''qText'', ''aType'', ''qWidth'', ''aOptions''],
      rows = [[Some (PNum 0.3), Some (PStr ''vert''), Some (PStr ''Like cats?''),
               Some (PStr ''choice''), Some (PNum 0.7), Some (PStr ''Yes,No'')]]\<rparr>"

definition fs1 :: files where
  "fs1 =
     \<lparr>path_exists = (\<lambda>p. p = ''notes.csv.txt''), read_csv = (\<lambda>p. Inr table1),
      read_excel = (\<lambda>p. Inl OSError)\<rparr>"

section \<open>Layout: what one pass over the items builds\<close>

lemma bind_Inr [simp]: "bind (Inr x) k = k x"
  by (simp add: bind_def)

lemma bind_Inl [simp]: "bind (Inl e) k = Inl e"
  by (simp add: bind_def)

lemma bind_eq_Inr: "bind m k = Inr y \<longleftrightarrow> (\<exists>x. m = Inr x \<and> k x = Inr y)"
  by (cases m) simp_all


lemma py_mul_Inr: "py_mul v x = Inr y \<Longrightarrow> \<exists>r. v = PNum r \<and> y = r * x"
  by (cases v) auto

lemma num_Inr: "num v = Inr r \<longleftrightarrow> v = Some r"
  by (cases v) (simp_all add: num_def)

lemma attr_Inr: "attr v = Inr x \<longleftrightarrow> v = Some x"
  by (cases v) (simp_all add: attr_def)

lemma local_var_Inr: "local_var v = Inr x \<longleftrightarrow> v = Some x"
  by (cases v) (simp_all add: local_var_def)

lemma setQuestion_Inr:
  assumes "setQuestion f d = Inr (f1, q, qH, qW)"
  shows "\<exists>t qw. getitem d ''qText'' = Inr t \<and> getitem d ''qWidth'' = Inr (PNum qw)
           \<and> q = TextStim (win f) t (units f) (textHeight f) ''left'' (qw * fst (sizeF f))
           \<and> getQuestionHeight f q = Inr qH \<and> getQuestionWidth f q = Inr qW
           \<and> f1 = f\<lparr>questions := questions f @ [q]\<rparr>"
  using assms
  by (auto simp: setQuestion_def bind_eq_Inr Let_def dest!: py_mul_Inr)

lemma getRespHeight_Inr:
  assumes "getRespHeight f d = Inr aH"
  shows "(getitem d ''aLayout'' = Inr (PStr ''horiz'') \<and> aH = textHeight f)
       \<or> (getitem d ''aLayout'' = Inr (PStr ''vert'')
           \<and> (\<exists>opts n. getitem d ''aOptions'' = Inr opts \<and> py_len opts = Inr n
                 \<and> aH = real n * textHeight f))"
  using assms
  by (auto simp: getRespHeight_def bind_eq_Inr split: if_splits)

lemma setResponse_Inr:
  assumes "setResponse f d q = Inr (f', r, aH)"
  shows "\<exists>aw opts lay ty lty re.
           getitem d ''aWidth'' = Inr (PNum aw) \<and> getitem d ''aOptions'' = Inr opts
         \<and> getitem d ''aLayout'' = Inr (PStr lay) \<and> lay \<in> {''horiz'', ''vert''}
         \<and> getitem d ''aType'' = Inr ty \<and> py_lower ty = Inr lty
         \<and> lty \<in> {''rating'', ''slider'', ''choice''}
         \<and> rightEdge f = Some re \<and> getRespHeight f d = Inr aH
         \<and> f' = f\<lparr>responses := responses f @ [r]\<rparr>
         \<and> r = Slider (re - aw * fst (sizeF f), snd (ts_pos q))
                  (if lty = ''choice'' \<and> lay = ''vert'' then (0.03, aH)
                   else (aw * fst (sizeF f), 0.03))
                  (if lty = ''choice'' then None else Some [0, 1])
                  (Some opts) (Some (units f))
                  (Some (if lty = ''choice'' then textHeight f else labelHeight f))
                  (if lty = ''choice'' then Some ''radio'' else None) True"
proof -
  from assms obtain awv w re aH' layv aSize ty lty resp where
    s1: "getitem d ''aWidth'' = Inr awv" and s2: "py_mul awv (fst (sizeF f)) = Inr w"
    and s3: "num (rightEdge f) = Inr re" and s4: "getRespHeight f d = Inr aH'"
    and s5: "getitem d ''aLayout'' = Inr layv"
    and s6: "(if layv = PStr ''horiz'' then
               bind (getitem d ''aWidth'') (\<lambda>aw'.
               bind (py_mul aw' (fst (sizeF f))) (\<lambda>w'. Inr (Some (w', 0.03))))
             else if layv = PStr ''vert'' then Inr (Some (0.03, aH'))
             else Inr None) = Inr aSize"
    and s7: "getitem d ''aType'' = Inr ty" and s8: "py_lower ty = Inr lty"
    and s9: "(if lty \<in> set [''rating'', ''slider''] then
               bind (getitem d ''aWidth'') (\<lambda>aw'.
               bind (py_mul aw' (fst (sizeF f))) (\<lambda>w'.
               bind (getitem d ''aOptions'') (\<lambda>opts.
               Inr (Some (Slider (re - w, snd (ts_pos q)) (w', 0.03) (Some [0, 1]) (Some opts)
                            (Some (units f)) (Some (labelHeight f)) None True)))))
             else if lty \<in> set [''choice''] then
               bind (local_var aSize) (\<lambda>sz.
               bind (getitem d ''aOptions'') (\<lambda>opts.
               Inr (Some (Slider (re - w, snd (ts_pos q)) sz None (Some opts) (Some (units f))
                            (Some (textHeight f)) (Some ''radio'') True))))
             else Inr None) = Inr resp"
    and s10: "local_var resp = Inr r" "f\<lparr>responses := responses f @ [r]\<rparr> = f'" "aH' = aH"
    unfolding setResponse_def bind_eq_Inr Let_def by blast
  from s2 obtain aw where aw: "awv = PNum aw" "w = aw * fst (sizeF f)"
    using py_mul_Inr by blast
  from s3 have re: "rightEdge f = Some re" by (simp add: num_Inr)
  from s10 have resp: "resp = Some r" and f': "f' = f\<lparr>responses := responses f @ [r]\<rparr>"
    and aH: "aH' = aH"
    by (auto simp: local_var_Inr)
  from s4 s5 obtain lay where lay: "layv = PStr lay" "lay \<in> {''horiz'', ''vert''}"
    using getRespHeight_Inr [OF s4] by auto
  have aSize: "aSize = Some (if lay = ''vert'' then (0.03, aH) else (aw * fst (sizeF f), 0.03))"
    using s6 s1 lay aw aH by (auto split: if_splits)
  show ?thesis
  proof (cases "lty \<in> set [''rating'', ''slider'']")
    case True
    with s9 s1 aw resp obtain opts where "getitem d ''aOptions'' = Inr opts"
      and "r = Slider (re - w, snd (ts_pos q)) (w, 0.03) (Some [0, 1]) (Some opts)
                 (Some (units f)) (Some (labelHeight f)) None True"
      by (auto simp: bind_eq_Inr)
    with True s1 s5 s7 s8 s4 aw re f' lay aH show ?thesis by auto
  next
    case False
    with s9 resp have ch: "lty = ''choice''" by (auto split: if_splits)
    with s9 False resp aSize obtain opts where "getitem d ''aOptions'' = Inr opts"
      and "r = Slider (re - w, snd (ts_pos q))
                 (if lay = ''vert'' then (0.03, aH) else (aw * fst (sizeF f), 0.03))
                 None (Some opts) (Some (units f)) (Some (textHeight f)) (Some ''radio'') True"
      by (auto simp: bind_eq_Inr local_var_Inr)
    with ch s1 s5 s7 s8 s4 aw re f' lay aH show ?thesis by auto
  qed
qed


lemma getRespHeight_questions [simp]:
  "getRespHeight (f\<lparr>questions := qs\<rparr>) d = getRespHeight f d"
  by (simp add: getRespHeight_def cong: if_cong)

lemma getQuestionHeight_frame [simp]:
  "getQuestionHeight (f\<lparr>questions := qs\<rparr>) q = getQuestionHeight f q"
  "getQuestionHeight (f\<lparr>responses := rs\<rparr>) q = getQuestionHeight f q"
  "getQuestionHeight (f\<lparr>baseYpositions := bs\<rparr>) q = getQuestionHeight f q"
  "getQuestionHeight (f\<lparr>virtualHeight := v\<rparr>) q = getQuestionHeight f q"
  "getQuestionHeight f (q\<lparr>ts_pos := p\<rparr>) = getQuestionHeight f q"
  by (simp_all add: getQuestionHeight_def)

lemma getRespHeight_frame [simp]:
  "getRespHeight (f\<lparr>responses := rs\<rparr>) d = getRespHeight f d"
  "getRespHeight (f\<lparr>baseYpositions := bs\<rparr>) d = getRespHeight f d"
  "getRespHeight (f\<lparr>virtualHeight := v\<rparr>) d = getRespHeight f d"
  by (simp_all add: getRespHeight_def cong: if_cong)

lemma layoutItem_Inr:
  assumes "layoutItem d f = Inr f'"
  shows "\<exists>q r qH qW aH le te.
           setQuestion f d = Inr (f\<lparr>questions := questions f @ [q]\<rparr>, q, qH, qW)
         \<and> leftEdge f = Some le \<and> topEdge f = Some te
         \<and> setResponse
              (f\<lparr>questions := questions f @
                   [q\<lparr>ts_pos := (le, te + virtualHeight f - qH / 2 - itemPadding f)\<rparr>]\<rparr>) d
              (q\<lparr>ts_pos := (le, te + virtualHeight f - qH / 2 - itemPadding f)\<rparr>)
             = Inr (f\<lparr>questions := questions f @
                       [q\<lparr>ts_pos := (le, te + virtualHeight f - qH / 2 - itemPadding f)\<rparr>],
                     responses := responses f @ [r]\<rparr>, r, aH)
         \<and> f' = f\<lparr>questions := questions f @
                       [q\<lparr>ts_pos := (le, te + virtualHeight f - qH / 2 - itemPadding f)\<rparr>],
                    responses := responses f @ [r],
                    baseYpositions := baseYpositions f @
                       [virtualHeight f - max aH qH + aH / 2 - textHeight f],
                    virtualHeight := virtualHeight f - (max aH qH + itemPadding f)\<rparr>"
proof (cases "setQuestion f d")
  case (Inl e)
  with assms show ?thesis by (simp add: layoutItem_def)
next
  case (Inr x)
  obtain f1 q qH qW where x: "x = (f1, q, qH, qW)" by (cases x) auto
  from setQuestion_Inr [OF Inr [unfolded x]]
  have f1: "f1 = f\<lparr>questions := questions f @ [q]\<rparr>" by blast
  have sq: "setQuestion f d = Inr (f\<lparr>questions := questions f @ [q]\<rparr>, q, qH, qW)"
    using Inr x f1 by simp
  obtain le where le: "leftEdge f = Some le"
    using assms sq by (cases "leftEdge f") (auto simp: layoutItem_def num_def)
  obtain te where te: "topEdge f = Some te"
    using assms sq le by (cases "topEdge f") (auto simp: layoutItem_def num_def)
  define q' where "q' = q\<lparr>ts_pos := (le, te + virtualHeight f - qH / 2 - itemPadding f)\<rparr>"
  define f2 where "f2 = f\<lparr>questions := questions f @ [q']\<rparr>"
  have step: "layoutItem d f =
      bind (setResponse f2 d q') (\<lambda>(f3, response, aHeight).
        Inr (f3\<lparr>baseYpositions := baseYpositions f3 @
                   [virtualHeight f3 - max aHeight qH + (aHeight / 2) - textHeight f3],
                 virtualHeight := virtualHeight f3 - (max aHeight qH + itemPadding f3)\<rparr>))"
    by (simp add: layoutItem_def sq le te num_def Let_def q'_def f2_def)
  show ?thesis
  proof (cases "setResponse f2 d q'")
    case (Inl e)
    with assms step show ?thesis by simp
  next
    case (Inr y)
    obtain f3 r aH where y: "y = (f3, r, aH)" by (cases y) auto
    from setResponse_Inr [OF Inr [unfolded y]]
    have f3: "f3 = f2\<lparr>responses := responses f2 @ [r]\<rparr>" by blast
    have "f' = f3\<lparr>baseYpositions := baseYpositions f3 @
                   [virtualHeight f3 - max aH qH + (aH / 2) - textHeight f3],
                 virtualHeight := virtualHeight f3 - (max aH qH + itemPadding f3)\<rparr>"
      using assms step Inr y by simp
    then have "f' = f\<lparr>questions := questions f @ [q'], responses := responses f @ [r],
                    baseYpositions := baseYpositions f @
                       [virtualHeight f - max aH qH + aH / 2 - textHeight f],
                    virtualHeight := virtualHeight f - (max aH qH + itemPadding f)\<rparr>"
      by (simp add: f3 f2_def)
    moreover have "setResponse f2 d q' = Inr (f2\<lparr>responses := responses f @ [r]\<rparr>, r, aH)"
      using Inr y f3 by (simp add: f2_def)
    ultimately show ?thesis
      using sq le te unfolding f2_def q'_def by blast
  qed
qed


lemma layoutItem_summary:
  assumes "layoutItem d f = Inr f'"
  shows "\<exists>q r aH qH.
           f' = f\<lparr>questions := questions f @ [q], responses := responses f @ [r],
                   baseYpositions := baseYpositions f @
                      [virtualHeight f - max aH qH + aH / 2 - textHeight f],
                   virtualHeight := virtualHeight f - (max aH qH + itemPadding f)\<rparr>
         \<and> getRespHeight f d = Inr aH \<and> getQuestionHeight f q = Inr qH
         \<and> getitem d ''qText'' = Inr (ts_text q) \<and> sl_rating r = None"
proof -
  from layoutItem_Inr [OF assms] obtain q r qH qW aH le te where
    sq: "setQuestion f d = Inr (f\<lparr>questions := questions f @ [q]\<rparr>, q, qH, qW)"
    and sr: "setResponse
              (f\<lparr>questions := questions f @
                   [q\<lparr>ts_pos := (le, te + virtualHeight f - qH / 2 - itemPadding f)\<rparr>]\<rparr>) d
              (q\<lparr>ts_pos := (le, te + virtualHeight f - qH / 2 - itemPadding f)\<rparr>)
             = Inr (f\<lparr>questions := questions f @
                       [q\<lparr>ts_pos := (le, te + virtualHeight f - qH / 2 - itemPadding f)\<rparr>],
                     responses := responses f @ [r]\<rparr>, r, aH)"
    and f': "f' = f\<lparr>questions := questions f @
                       [q\<lparr>ts_pos := (le, te + virtualHeight f - qH / 2 - itemPadding f)\<rparr>],
                    responses := responses f @ [r],
                    baseYpositions := baseYpositions f @
                       [virtualHeight f - max aH qH + aH / 2 - textHeight f],
                    virtualHeight := virtualHeight f - (max aH qH + itemPadding f)\<rparr>"
    by blast
  from setQuestion_Inr [OF sq] have qh: "getQuestionHeight f q = Inr qH"
    and qtx: "getitem d ''qText'' = Inr (ts_text q)"
    by (auto simp: TextStim_def)
  from setResponse_Inr [OF sr] have ah: "getRespHeight f d = Inr aH" and rt: "sl_rating r = None"
    by (auto simp: Slider_def)
  let ?q = "q\<lparr>ts_pos := (le, te + virtualHeight f - qH / 2 - itemPadding f)\<rparr>"
  have "getQuestionHeight f ?q = Inr qH" "getitem d ''qText'' = Inr (ts_text ?q)"
    using qh qtx by simp_all
  with f' ah rt show ?thesis by blast
qed

lemma layout_loop:
  assumes "forEach layoutItem ds f = Inr f'"
  shows "\<exists>qs rs bs as hs.
           f' = f\<lparr>questions := questions f @ qs, responses := responses f @ rs,
                   baseYpositions := baseYpositions f @ bs,
                   virtualHeight := virtualHeight f
                      - sum_list (map (\<lambda>(a, h). max a h + itemPadding f) (zip as hs))\<rparr>
         \<and> length qs = length ds \<and> length rs = length ds \<and> length bs = length ds
         \<and> map (getRespHeight f) ds = map Inr as
         \<and> map (getQuestionHeight f) qs = map Inr hs
         \<and> map (\<lambda>d. getitem d ''qText'') ds = map (\<lambda>q. Inr (ts_text q)) qs
         \<and> (\<forall>r \<in> set rs. sl_rating r = None)"
  using assms
proof (induction ds arbitrary: f)
  case Nil
  then have "f' = f" by simp
  then show ?case by (intro exI [of _ "[]"]) simp
next
  case (Cons d ds)
  from Cons.prems obtain f1 where st: "layoutItem d f = Inr f1"
    and lp: "forEach layoutItem ds f1 = Inr f'"
    by (auto simp: bind_eq_Inr)
  from layoutItem_summary [OF st] obtain q r aH qH where
    f1: "f1 = f\<lparr>questions := questions f @ [q], responses := responses f @ [r],
                 baseYpositions := baseYpositions f @
                    [virtualHeight f - max aH qH + aH / 2 - textHeight f],
                 virtualHeight := virtualHeight f - (max aH qH + itemPadding f)\<rparr>"
    and ah: "getRespHeight f d = Inr aH" and qh: "getQuestionHeight f q = Inr qH"
    and qtx: "getitem d ''qText'' = Inr (ts_text q)" and rt: "sl_rating r = None"
    by blast
  from Cons.IH [OF lp] obtain qs rs bs as hs where
    f': "f' = f1\<lparr>questions := questions f1 @ qs, responses := responses f1 @ rs,
                  baseYpositions := baseYpositions f1 @ bs,
                  virtualHeight := virtualHeight f1
                     - sum_list (map (\<lambda>(a, h). max a h + itemPadding f1) (zip as hs))\<rparr>"
    and len: "length qs = length ds" "length rs = length ds" "length bs = length ds"
    and ahs: "map (getRespHeight f1) ds = map Inr as"
    and qhs: "map (getQuestionHeight f1) qs = map Inr hs"
    and txts: "map (\<lambda>d. getitem d ''qText'') ds = map (\<lambda>q. Inr (ts_text q)) qs"
    and rts: "\<forall>r \<in> set rs. sl_rating r = None"
    by blast
  have frame: "getRespHeight f1 = getRespHeight f" "getQuestionHeight f1 = getQuestionHeight f"
    "itemPadding f1 = itemPadding f"
    by (simp_all add: f1 fun_eq_iff)
  let ?bs = "(virtualHeight f - max aH qH + aH / 2 - textHeight f) # bs"
  have "f' = f\<lparr>questions := questions f @ (q # qs), responses := responses f @ (r # rs),
                 baseYpositions := baseYpositions f @ ?bs,
                 virtualHeight := virtualHeight f
                    - sum_list (map (\<lambda>(a, h). max a h + itemPadding f) (zip (aH # as) (qH # hs)))\<rparr>"
    unfolding f' frame by (simp add: f1 algebra_simps)
  moreover have "map (getRespHeight f) (d # ds) = map Inr (aH # as)"
    using ah ahs frame by simp
  moreover have "map (getQuestionHeight f) (q # qs) = map Inr (qH # hs)"
    using qh qhs frame by simp
  moreover have "map (\<lambda>d. getitem d ''qText'') (d # ds) = map (\<lambda>q. Inr (ts_text q)) (q # qs)"
    using qtx txts by simp
  moreover have "\<forall>x \<in> set (r # rs). sl_rating x = None"
    using rt rts by simp
  moreover have "length (q # qs) = length (d # ds)" "length (r # rs) = length (d # ds)"
    "length ?bs = length (d # ds)"
    using len by simp_all
  ultimately show ?case by blast
qed


lemma doLayout_Inr:
  assumes "doLayout g = Inr f"
  shows "\<exists>qs rs bs as hs sb.
           items f = items g \<and> sizeF f = sizeF g \<and> itemPadding f = itemPadding g
         \<and> textHeight f = textHeight g \<and> win f = win g
         \<and> questions f = questions g @ qs \<and> responses f = responses g @ rs
         \<and> baseYpositions f = baseYpositions g @ bs
         \<and> virtualHeight f = virtualHeight g
              - sum_list (map (\<lambda>(a, h). max a h + itemPadding g) (zip as hs))
         \<and> length qs = length (items g) \<and> length rs = length (items g)
         \<and> length bs = length (items g)
         \<and> map (getRespHeight f) (items g) = map Inr as
         \<and> map (getQuestionHeight f) qs = map Inr hs
         \<and> map (\<lambda>d. getitem d ''qText'') (items g) = map (\<lambda>q. Inr (ts_text q)) qs
         \<and> (\<forall>r \<in> set rs. sl_rating r = None)
         \<and> scrollbar f = Some sb \<and> sl_markerPos sb = Some 1
         \<and> border f = Some (setBorder g) \<and> aperture f = Some (setAperture g)"
proof -
  define g3 where "g3 = g\<lparr>leftEdge := Some (fst (pos g) - fst (sizeF g) / 2.0),
                          rightEdge := Some (fst (pos g) + fst (sizeF g) / 2.0),
                          topEdge := Some (snd (pos g) + snd (sizeF g) / 2.0)\<rparr>"
  from assms obtain f4 sb where lp: "forEach layoutItem (items g) g3 = Inr f4"
    and sb: "setScrollBar f4 = Inr sb"
    and f: "f = f4\<lparr>scrollbar := Some (sb\<lparr>sl_markerPos := Some 1\<rparr>),
                  border := Some (setBorder f4), aperture := Some (setAperture f4)\<rparr>"
    by (auto simp: doLayout_def Let_def bind_eq_Inr g3_def setBorder_def setAperture_def)
  from layout_loop [OF lp] obtain qs rs bs as hs where
    f4: "f4 = g3\<lparr>questions := questions g3 @ qs, responses := responses g3 @ rs,
                  baseYpositions := baseYpositions g3 @ bs,
                  virtualHeight := virtualHeight g3
                     - sum_list (map (\<lambda>(a, h). max a h + itemPadding g3) (zip as hs))\<rparr>"
    and len: "length qs = length (items g)" "length rs = length (items g)"
      "length bs = length (items g)"
    and ahs: "map (getRespHeight g3) (items g) = map Inr as"
    and qhs: "map (getQuestionHeight g3) qs = map Inr hs"
    and txts: "map (\<lambda>d. getitem d ''qText'') (items g) = map (\<lambda>q. Inr (ts_text q)) qs"
    and rts: "\<forall>r \<in> set rs. sl_rating r = None"
    by blast
  have frame: "getRespHeight f = getRespHeight g3" "getQuestionHeight f = getQuestionHeight g3"
    by (simp_all add: f f4 fun_eq_iff getRespHeight_def getQuestionHeight_def cong: if_cong)
  have "setBorder f4 = setBorder g" "setAperture f4 = setAperture g"
    by (simp_all add: f4 g3_def setBorder_def setAperture_def)
  then show ?thesis
    using len ahs qhs txts rts unfolding frame
    by (intro exI [of _ qs] exI [of _ rs] exI [of _ bs] exI [of _ as] exI [of _ hs]
        exI [of _ "sb\<lparr>sl_markerPos := Some 1\<rparr>"])
       (simp add: f f4 g3_def)
qed

lemma Form_Inr:
  assumes "Form w nm its th sz ps pad un fs = Inr f"
  shows "\<exists>ds as hs sb.
           importItems fs its = Inr ds
         \<and> items f = ds \<and> sizeF f = sz \<and> itemPadding f = pad \<and> textHeight f = th \<and> win f = w
         \<and> virtualHeight f = - sum_list (map (\<lambda>(a, h). max a h + pad) (zip as hs))
         \<and> length (questions f) = length ds \<and> length (responses f) = length ds
         \<and> length (baseYpositions f) = length ds
         \<and> map (getRespHeight f) ds = map Inr as
         \<and> map (getQuestionHeight f) (questions f) = map Inr hs
         \<and> map (\<lambda>d. getitem d ''qText'') ds = map (\<lambda>q. Inr (ts_text q)) (questions f)
         \<and> (\<forall>r \<in> set (responses f). sl_rating r = None)
         \<and> scrollbar f = Some sb \<and> sl_markerPos sb = Some 1
         \<and> border f \<noteq> None \<and> aperture f \<noteq> None"
proof -
  from assms obtain ds where imp: "importItems fs its = Inr ds"
    and lay: "doLayout
       \<lparr>win = w, name = nm, items = ds, sizeF = sz, pos = ps, itemPadding = pad, units = un,
        labelHeight = 0.02, textHeight = th, questions = [], responses = [],
        baseYpositions = [], leftEdge = None, rightEdge = None, topEdge = None,
        virtualHeight = 0, scrollOffset = 0, scrollbar = None, border = None,
        aperture = None\<rparr> = Inr f"
    by (auto simp: Form_def bind_eq_Inr)
  from doLayout_Inr [OF lay] imp show ?thesis
    by simp blast
qed

section \<open>Drawing: what one cycle does to every drawable\<close>

lemma getScrollOffet_frame [simp]:
  "getScrollOffet (f\<lparr>questions := qs\<rparr>) = getScrollOffet f"
  "getScrollOffet (f\<lparr>responses := rs\<rparr>) = getScrollOffet f"
  by (simp_all add: getScrollOffet_def)

lemma inRange_frame [simp]:
  "inRange (f\<lparr>questions := qs\<rparr>) p = inRange f p"
  "inRange (f\<lparr>responses := rs\<rparr>) p = inRange f p"
  by (simp_all add: inRange_def)








section \<open>The example forms, evaluated\<close>

lemmas model_defs =
  Form_def doLayout_def layoutItem_def setQuestion_def setResponse_def getRespHeight_def
  getQuestionHeight_def getQuestionWidth_def setScrollBar_def setBorder_def setAperture_def
  TextStim_def Slider_def checkDict_def checkHeaders_def checkOptions_def keys_def getitem_def
  surveyFields_def py_div_def num_def attr_def local_var_def lower_char_def Let_def

lemmas base_defs =
  win0_def fs0_def item1_def item_rv_def scrollbar0_def border0_def aperture0_def
  question1_def response1_def response_rv_def

lemma Form_item1_eval:
  "Form win0 ''survey'' (ItemList [item1]) 0.03 (1, 0.7) (0, 0) 0.05 ''height'' fs0 = Inr form1"
  by (simp add: model_defs base_defs form1_def)

lemma Form_two_items_eval:
  "Form win0 ''survey'' (ItemList [item_rv, item1]) 0.03 (1, 0.2) (0, 0) 0.05 ''height'' fs0
     = Inr form2"
  by (simp add: model_defs base_defs form2_def)


section \<open>Import and failure of the layout pass\<close>

lemma checkDict_accepted: "checkDict d = Inr () \<longleftrightarrow> accepted d"
  by (auto simp: checkDict_def checkHeaders_def checkOptions_def getitem_def accepted_def
      optionCount_def bind_eq_Inr split: option.splits sum.splits if_splits)

lemma checkDict_NameError:
  "set (keys d) \<noteq> set surveyFields \<Longrightarrow> checkDict d = Inl NameError"
  by (auto simp: checkDict_def checkHeaders_def)

lemma checkDict_ValueError:
  "set (keys d) = set surveyFields \<Longrightarrow> optionCount d = Some n \<Longrightarrow> n \<le> 1
     \<Longrightarrow> checkDict d = Inl ValueError"
  by (auto simp: checkDict_def checkHeaders_def checkOptions_def getitem_def optionCount_def
      split: option.splits sum.splits)

lemma checkDict_ok: "accepted d \<Longrightarrow> checkDict d = Inr ()"
  by (simp add: checkDict_accepted)

lemma check_loop_ok:
  "\<forall>d \<in> set ds. accepted d \<Longrightarrow> forEach (\<lambda>d u. checkDict d) ds () = Inr ()"
  by (induction ds) (simp_all add: checkDict_ok)

lemma check_loop_first_failure:
  "\<forall>d \<in> set pre. accepted d \<Longrightarrow> checkDict d = Inl e
     \<Longrightarrow> forEach (\<lambda>d u. checkDict d) (pre @ d # post) () = Inl e"
  by (induction pre) (simp_all add: checkDict_ok)

lemma importItems_accepted:
  "\<forall>d \<in> set ds. accepted d \<Longrightarrow> importItems fs (ItemList ds) = Inr ds"
  by (simp add: check_loop_ok)

lemma getitem_Inr: "getitem d k = Inr v \<longleftrightarrow> map_of d k = Some v"
  by (simp add: getitem_def split: option.splits)

lemma py_lower_Inr: "py_lower v = Inr l \<Longrightarrow> \<exists>s. v = PStr s \<and> l = map lower_char s"
  by (cases v) auto

lemma setResponse_known:
  assumes "setResponse f d q = Inr x"
  shows "knownType d \<and> knownLayout d"
proof -
  obtain f' r aH where x: "x = (f', r, aH)" by (cases x) auto
  from setResponse_Inr [OF assms [unfolded x]] obtain lay ty lty where
    l: "getitem d ''aLayout'' = Inr (PStr lay)" "lay \<in> {''horiz'', ''vert''}"
    and t: "getitem d ''aType'' = Inr ty" "py_lower ty = Inr lty"
      "lty \<in> {''rating'', ''slider'', ''choice''}"
    by blast
  from t(2) obtain s where "ty = PStr s" "lty = map lower_char s"
    using py_lower_Inr by blast
  with t have "knownType d" by (auto simp: knownType_def getitem_Inr)
  moreover from l have "knownLayout d" by (auto simp: knownLayout_def getitem_Inr)
  ultimately show ?thesis ..
qed

lemma layoutItem_known:
  assumes "layoutItem d f = Inr f'"
  shows "knownType d \<and> knownLayout d"
proof -
  from layoutItem_Inr [OF assms] obtain f2 q x where "setResponse f2 d q = Inr x"
    by blast
  then show ?thesis by (rule setResponse_known)
qed

lemma layout_loop_known:
  "forEach layoutItem ds f = Inr f' \<Longrightarrow> \<forall>d \<in> set ds. knownType d \<and> knownLayout d"
proof (induction ds arbitrary: f)
  case Nil
  show ?case by simp
next
  case (Cons d ds)
  from Cons.prems obtain f1 where st: "layoutItem d f = Inr f1"
    and lp: "forEach layoutItem ds f1 = Inr f'"
    by (auto simp: bind_eq_Inr)
  from layoutItem_known [OF st] Cons.IH [OF lp] show ?case by simp
qed

lemma Form_unknown_fails:
  assumes "d \<in> set ds" and "\<not> knownType d \<or> \<not> knownLayout d"
  shows "\<exists>e. Form w nm (ItemList ds) th sz ps pad un fs = Inl e"
proof (cases "Form w nm (ItemList ds) th sz ps pad un fs")
  case (Inl e)
  then show ?thesis by blast
next
  case (Inr f)
  then obtain g f4 where "forEach layoutItem ds g = Inr f4"
    by (auto simp: Form_def doLayout_def Let_def bind_eq_Inr)
  from layout_loop_known [OF this] assms show ?thesis by blast
qed

lemma accepted_field:
  assumes "accepted d" and "k \<in> set surveyFields"
  shows "\<exists>v. map_of d k = Some v"
proof -
  from assms have "k \<in> fst ` set d" by (simp add: accepted_def keys_def)
  then show ?thesis by (cases "map_of d k") (auto simp: map_of_eq_None_iff)
qed

lemma layoutItem_error:
  assumes acc: "accepted d" and ty: "typedItem d"
    and edges: "leftEdge f = Some le" "rightEdge f = Some re" "topEdge f = Some te"
    and w: "fst (win_size (win f)) \<noteq> 0" "snd (win_size (win f)) \<noteq> 0"
    and fail: "layoutItem d f = Inl e"
  shows "e = UnboundLocalError"
proof -
  from accepted_field [OF acc, of "''qText''"] obtain t where t: "map_of d ''qText'' = Some t"
    by (auto simp: surveyFields_def)
  from accepted_field [OF acc, of "''aLayout''"] obtain lv where lv: "map_of d ''aLayout'' = Some lv"
    by (auto simp: surveyFields_def)
  from ty obtain qw aw s where qw: "map_of d ''qWidth'' = Some (PNum qw)"
    and aw: "map_of d ''aWidth'' = Some (PNum aw)" and s: "map_of d ''aType'' = Some (PStr s)"
    by (auto simp: typedItem_def split: option.splits pyval.splits)
  from acc obtain ov n where ov: "map_of d ''aOptions'' = Some ov" and n: "py_len ov = Inr n"
    by (auto simp: accepted_def optionCount_def split: option.splits sum.splits)
  let ?q = "TextStim (win f) t (units f) (textHeight f) ''left'' (qw * fst (sizeF f))"
  have sq: "setQuestion f d =
      Inr (f\<lparr>questions := questions f @ [?q]\<rparr>, ?q,
           snd (ts_boundingBox ?q) / (snd (win_size (win f)) / 2),
           fst (ts_boundingBox ?q) / (fst (win_size (win f)) / 2))"
    using w by (simp add: setQuestion_def getitem_def t qw getQuestionHeight_def
        getQuestionWidth_def py_div_def Let_def)
  have rh: "(lv = PStr ''vert'' \<and> getRespHeight g d = Inr (real n * textHeight g))
      \<or> (lv = PStr ''horiz'' \<and> getRespHeight g d = Inr (textHeight g))
      \<or> (getRespHeight g d = Inl UnboundLocalError)" for g
    by (simp add: getRespHeight_def getitem_def lv ov n)
  have sr: "setResponse g d q = Inl e' \<Longrightarrow> rightEdge g = Some re \<Longrightarrow> e' = UnboundLocalError"
    for g q e'
    using rh [of g]
    by (auto simp: setResponse_def getitem_def aw s lv ov num_def local_var_def Let_def
        split: if_splits)
  from fail show ?thesis
    by (auto simp: layoutItem_def sq edges num_def Let_def bind_def
        split: sum.splits dest!: sr)
qed

lemma layoutItem_frame:
  assumes "layoutItem d f = Inr f'"
  shows "leftEdge f' = leftEdge f \<and> rightEdge f' = rightEdge f \<and> topEdge f' = topEdge f
       \<and> win f' = win f"
proof -
  from layoutItem_summary [OF assms] obtain q r aH qH where
    "f' = f\<lparr>questions := questions f @ [q], responses := responses f @ [r],
            baseYpositions := baseYpositions f @
               [virtualHeight f - max aH qH + aH / 2 - textHeight f],
            virtualHeight := virtualHeight f - (max aH qH + itemPadding f)\<rparr>"
    by blast
  then show ?thesis by simp
qed

lemma layout_loop_error:
  assumes "\<forall>d \<in> set ds. accepted d \<and> typedItem d"
    and "leftEdge f = Some le" "rightEdge f = Some re" "topEdge f = Some te"
    and "fst (win_size (win f)) \<noteq> 0" "snd (win_size (win f)) \<noteq> 0"
    and "forEach layoutItem ds f = Inl e"
  shows "e = UnboundLocalError"
  using assms
proof (induction ds arbitrary: f)
  case Nil
  then show ?case by simp
next
  case (Cons d ds)
  show ?case
  proof (cases "layoutItem d f")
    case (Inl e')
    with Cons.prems(7) have "e' = e" by simp
    with Inl Cons.prems layoutItem_error [of d f le re te e] show ?thesis by simp
  next
    case (Inr f1)
    with Cons.prems(7) have lp: "forEach layoutItem ds f1 = Inl e" by simp
    from layoutItem_frame [OF Inr] Cons.prems
    have "leftEdge f1 = Some le" "rightEdge f1 = Some re" "topEdge f1 = Some te"
      "fst (win_size (win f1)) \<noteq> 0" "snd (win_size (win f1)) \<noteq> 0"
      by simp_all
    moreover from Cons.prems(1) have "\<forall>d \<in> set ds. accepted d \<and> typedItem d" by simp
    ultimately show ?thesis using Cons.IH lp by blast
  qed
qed

lemma Form_error_unbound:
  assumes "\<forall>d \<in> set ds. accepted d \<and> typedItem d"
    and "fst (win_size w) \<noteq> 0" "snd (win_size w) \<noteq> 0"
    and "Form w nm (ItemList ds) th sz ps pad un fs = Inl e"
  shows "e = UnboundLocalError"
proof -
  define g where "g = \<lparr>win = w, name = nm, items = ds, sizeF = sz, pos = ps, itemPadding = pad,
        units = un, labelHeight = 0.02, textHeight = th, questions = [], responses = [],
        baseYpositions = [], leftEdge = Some (fst ps - fst sz / 2.0),
        rightEdge = Some (fst ps + fst sz / 2.0), topEdge = Some (snd ps + snd sz / 2.0),
        virtualHeight = 0, scrollOffset = 0, scrollbar = None, border = None,
        aperture = None\<rparr>"
  from assms(1) have "\<forall>d \<in> set ds. accepted d" by simp
  then have imp: "importItems fs (ItemList ds) = Inr ds"
    by (rule importItems_accepted)
  show ?thesis
  proof (cases "forEach layoutItem ds g")
    case (Inl e')
    have "Form w nm (ItemList ds) th sz ps pad un fs = Inl e'"
      using imp Inl unfolding Form_def doLayout_def Let_def g_def by simp
    with assms(4) have "e' = e" by simp
    with Inl layout_loop_error [OF assms(1), of g _ _ _ e] assms(2,3) show ?thesis
      by (simp add: g_def)
  next
    case (Inr f4)
    from layout_loop [OF Inr] have "rightEdge f4 = rightEdge g" by auto
    then have "\<exists>f. Form w nm (ItemList ds) th sz ps pad un fs = Inr f"
      using imp Inr unfolding Form_def doLayout_def Let_def g_def
      by (simp add: setScrollBar_def num_def)
    with assms(4) show ?thesis by simp
  qed
qed

section \<open>The claims\<close>

text \<open>
  Claim C1. When the constructor succeeds, every item has an answer height and every
  question a measured height, and \<open>virtualHeight\<close> is the negated sum over the items of
  the larger of the two heights plus the item padding. For the empty item list the
  constructor succeeds and \<open>virtualHeight\<close> is 0.
\<close>

theorem virtualHeight_after_layout:
  "(Form w nm its th sz ps pad un fs = Inr f \<longrightarrow>
      (\<exists>as hs. importItems fs its = Inr (items f)
          \<and> length (questions f) = length (items f)
          \<and> map (getRespHeight f) (items f) = map Inr as
          \<and> map (getQuestionHeight f) (questions f) = map Inr hs
          \<and> virtualHeight f = - sum_list (map (\<lambda>(a, h). max a h + pad) (zip as hs))))
   \<and> (\<exists>f0. Form w nm (ItemList []) th sz ps pad un fs = Inr f0 \<and> virtualHeight f0 = 0)"
proof (intro conjI impI)
  assume "Form w nm its th sz ps pad un fs = Inr f"
  from Form_Inr [OF this]
  show "\<exists>as hs. importItems fs its = Inr (items f)
          \<and> length (questions f) = length (items f)
          \<and> map (getRespHeight f) (items f) = map Inr as
          \<and> map (getQuestionHeight f) (questions f) = map Inr hs
          \<and> virtualHeight f = - sum_list (map (\<lambda>(a, h). max a h + pad) (zip as hs))"
    by blast
next
  show "\<exists>f0. Form w nm (ItemList []) th sz ps pad un fs = Inr f0 \<and> virtualHeight f0 = 0"
    by (simp add: Form_def doLayout_def setScrollBar_def num_def Let_def)
qed

theorem virtualHeight_after_layout_witness:
  "Form win0 ''survey'' (ItemList [item_rv, item1]) 0.03 (1, 0.2) (0, 0) 0.05 ''height'' fs0
     = Inr form2
   \<and> (\<exists>as hs. map (getRespHeight form2) (items form2) = map Inr as
          \<and> map (getQuestionHeight form2) (questions form2) = map Inr hs
          \<and> virtualHeight form2 = - sum_list (map (\<lambda>(a, h). max a h + 0.05) (zip as hs)))
   \<and> map (getRespHeight form2) (items form2) = map Inr [0.06, 0.06]
   \<and> map (getQuestionHeight form2) (questions form2) = map Inr [0.1, 0.1]
   \<and> virtualHeight form2 = - ((max 0.06 0.1 + 0.05) + (max 0.06 0.1 + 0.05))"
proof -
  have h: "Form win0 ''survey'' (ItemList [item_rv, item1]) 0.03 (1, 0.2) (0, 0) 0.05 ''height'' fs0
     = Inr form2"
    by (rule Form_two_items_eval)
  from virtualHeight_after_layout [of win0 "''survey''" "ItemList [item_rv, item1]" "0.03" "(1, 0.2)"
      "(0, 0)" "0.05" "''height''" fs0 form2] h
  have "\<exists>as hs. map (getRespHeight form2) (items form2) = map Inr as
          \<and> map (getQuestionHeight form2) (questions form2) = map Inr hs
          \<and> virtualHeight form2 = - sum_list (map (\<lambda>(a, h). max a h + 0.05) (zip as hs))"
    by blast
  moreover have "map (getRespHeight form2) (items form2) = map Inr [0.06, 0.06]"
    "map (getQuestionHeight form2) (questions form2) = map Inr [0.1, 0.1]"
    by (simp_all add: getRespHeight_def getQuestionHeight_def getitem_def py_div_def
        form2_def base_defs)
  moreover have "virtualHeight form2 = - ((max 0.06 0.1 + 0.05) + (max 0.06 0.1 + 0.05))"
    by (simp add: form2_def)
  ultimately show ?thesis using h by blast
qed







text \<open>
  Claim C5, as stated, fails: for a rating item with the vertical layout the control that
  \<open>_setResponse\<close> builds keeps the horizontal size, answer width times form width by
  0.03, and not 0.03 by the number of options times the text height.
\<close>

theorem setResponse_size_counterexample:
  "Form win0 ''survey'' (ItemList [item_rv]) 0.03 (1, 0.7) (0, 0) 0.05 ''height'' fs0 = Inr form_rv
   \<and> getitem item_rv ''aLayout'' = Inr (PStr ''vert'')
   \<and> getitem item_rv ''aOptions'' = Inr (PList [''Lots'', ''Not a lot''])
   \<and> map sl_size (responses form_rv) = [(0.3 * 1, 0.03)]
   \<and> map sl_size (responses form_rv) \<noteq> [(0.03, 2 * 0.03)]"
  by (simp add: model_defs base_defs form_rv_def)

text \<open>
  Claim C5, amended. The control that \<open>_setResponse\<close> returns is positioned at the right
  edge minus answer width times form width, at the Y of the question, and carries the
  options as labels. For the types rating and slider it is a slider with the ticks 0 and
  1 and the size answer width times form width by 0.03, whatever the layout. For the type
  choice it is a radio control whose size follows the layout: answer width times form
  width by 0.03 when horizontal, 0.03 by number of options times text height when
  vertical. No other type or layout gets a control.
\<close>

theorem setResponse_control:
  assumes "setResponse f d q = Inr (f', r, aH)"
  shows "\<exists>aw opts lay ty lty re.
           getitem d ''aWidth'' = Inr (PNum aw) \<and> getitem d ''aOptions'' = Inr opts
         \<and> getitem d ''aLayout'' = Inr (PStr lay) \<and> getitem d ''aType'' = Inr ty
         \<and> py_lower ty = Inr lty \<and> rightEdge f = Some re
         \<and> (lay = ''horiz'' \<or> lay = ''vert'')
         \<and> (lty = ''rating'' \<or> lty = ''slider'' \<or> lty = ''choice'')
         \<and> sl_pos r = (re - aw * fst (sizeF f), snd (ts_pos q))
         \<and> sl_labels r = Some opts
         \<and> (lty \<noteq> ''choice'' \<longrightarrow>
               sl_ticks r = Some [0, 1] \<and> sl_style r = None
             \<and> sl_size r = (aw * fst (sizeF f), 0.03))
         \<and> (lty = ''choice'' \<longrightarrow> sl_ticks r = None \<and> sl_style r = Some ''radio'')
         \<and> (lty = ''choice'' \<and> lay = ''horiz'' \<longrightarrow> sl_size r = (aw * fst (sizeF f), 0.03))
         \<and> (lty = ''choice'' \<and> lay = ''vert'' \<longrightarrow>
               (\<exists>n. py_len opts = Inr n \<and> sl_size r = (0.03, real n * textHeight f)))
         \<and> f' = f\<lparr>responses := responses f @ [r]\<rparr>"
proof -
  from setResponse_Inr [OF assms] obtain aw opts lay ty lty re where
    g: "getitem d ''aWidth'' = Inr (PNum aw)" "getitem d ''aOptions'' = Inr opts"
      "getitem d ''aLayout'' = Inr (PStr lay)" "getitem d ''aType'' = Inr ty"
      "py_lower ty = Inr lty" "rightEdge f = Some re"
    and lay: "lay \<in> {''horiz'', ''vert''}"
    and lty: "lty \<in> {''rating'', ''slider'', ''choice''}"
    and ah: "getRespHeight f d = Inr aH"
    and f': "f' = f\<lparr>responses := responses f @ [r]\<rparr>"
    and r: "r = Slider (re - aw * fst (sizeF f), snd (ts_pos q))
                  (if lty = ''choice'' \<and> lay = ''vert'' then (0.03, aH)
                   else (aw * fst (sizeF f), 0.03))
                  (if lty = ''choice'' then None else Some [0, 1])
                  (Some opts) (Some (units f))
                  (Some (if lty = ''choice'' then textHeight f else labelHeight f))
                  (if lty = ''choice'' then Some ''radio'' else None) True"
    by blast
  have vert: "\<exists>n. py_len opts = Inr n \<and> aH = real n * textHeight f" if "lay = ''vert''"
    using getRespHeight_Inr [OF ah] g(2,3) that by auto
  have p: "sl_pos r = (re - aw * fst (sizeF f), snd (ts_pos q))" "sl_labels r = Some opts"
    by (simp_all add: r Slider_def)
  have c1: "lty \<noteq> ''choice'' \<longrightarrow>
               sl_ticks r = Some [0, 1] \<and> sl_style r = None
             \<and> sl_size r = (aw * fst (sizeF f), 0.03)"
    by (simp add: r Slider_def)
  have c2: "lty = ''choice'' \<longrightarrow> sl_ticks r = None \<and> sl_style r = Some ''radio''"
    by (simp add: r Slider_def)
  have c3: "lty = ''choice'' \<and> lay = ''horiz'' \<longrightarrow> sl_size r = (aw * fst (sizeF f), 0.03)"
    by (simp add: r Slider_def)
  have c4: "lty = ''choice'' \<and> lay = ''vert'' \<longrightarrow>
               (\<exists>n. py_len opts = Inr n \<and> sl_size r = (0.03, real n * textHeight f))"
    using vert by (auto simp: r Slider_def)
  have c5: "lay = ''horiz'' \<or> lay = ''vert''" using lay by simp
  have c6: "lty = ''rating'' \<or> lty = ''slider'' \<or> lty = ''choice''" using lty by simp
  show ?thesis
    by (intro exI [of _ aw] exI [of _ opts] exI [of _ lay] exI [of _ ty] exI [of _ lty]
        exI [of _ re] conjI)
       (rule g f' p c1 c2 c3 c4 c5 c6)+
qed

theorem setResponse_control_witness:
  "setResponse form_empty item1 question1
     = Inr (form_empty\<lparr>responses := [response1]\<rparr>, response1, 0.06)
   \<and> sl_size response1 = (0.03, 2 * 0.03)
   \<and> setResponse form_empty item_rv question1 = Inr (form_empty\<lparr>responses := [response_rv]\<rparr>, response_rv, 0.06)
   \<and> sl_size response_rv = (0.3 * 1, 0.03)"
proof -
  have h: "setResponse form_empty item1 question1
     = Inr (form_empty\<lparr>responses := [response1]\<rparr>, response1, 0.06)"
    by (simp add: model_defs base_defs form_empty_def)
  have h': "setResponse form_empty item_rv question1
     = Inr (form_empty\<lparr>responses := [response_rv]\<rparr>, response_rv, 0.06)"
    by (simp add: model_defs base_defs form_empty_def)
  from setResponse_control [OF h]
  have "form_empty\<lparr>responses := [response1]\<rparr>
          = form_empty\<lparr>responses := responses form_empty @ [response1]\<rparr>"
    by (elim exE conjE)
  moreover from setResponse_control [OF h']
  have "form_empty\<lparr>responses := [response_rv]\<rparr>
          = form_empty\<lparr>responses := responses form_empty @ [response_rv]\<rparr>"
    by (elim exE conjE)
  moreover have "sl_size response1 = (0.03, 2 * 0.03)" "sl_size response_rv = (0.3 * 1, 0.03)"
    by (simp_all add: base_defs)
  ultimately show ?thesis using h h' by blast
qed

text \<open>
  Claim C6. \<open>formComplete\<close> holds exactly when no entry of the ratings that
  \<open>getData\<close> collects is \<open>None\<close>, that is when every answer control reports a
  rating. It is a function of the form alone and returns no new form. On a form that the
  constructor has just built from at least one item it is false.
\<close>

theorem formComplete_iff_all_rated:
  "(formComplete f \<longleftrightarrow> (\<forall>x \<in> set (fd_ratings (getData f)). x \<noteq> None))
   \<and> (formComplete f \<longleftrightarrow> (\<forall>r \<in> set (responses f). \<exists>v. getRating r = Some v))
   \<and> (Form w nm its th sz ps pad un fs = Inr f \<and> items f \<noteq> [] \<longrightarrow> \<not> formComplete f)"
proof (intro conjI impI)
  show "formComplete f \<longleftrightarrow> (\<forall>x \<in> set (fd_ratings (getData f)). x \<noteq> None)"
    unfolding formComplete_def by metis
  show "formComplete f \<longleftrightarrow> (\<forall>r \<in> set (responses f). \<exists>v. getRating r = Some v)"
    by (auto simp: formComplete_def getData_def image_iff) (metis option.exhaust)
next
  assume a: "Form w nm its th sz ps pad un fs = Inr f \<and> items f \<noteq> []"
  from Form_Inr [of w nm its th sz ps pad un fs f] a
  have len: "length (responses f) = length (items f)"
    and fresh: "\<forall>r \<in> set (responses f). sl_rating r = None"
    by auto
  from len a obtain r where "r \<in> set (responses f)"
    by (cases "responses f") auto
  with fresh show "\<not> formComplete f"
    by (auto simp: formComplete_def getData_def getRating_def image_iff)
qed

theorem formComplete_iff_all_rated_witness:
  "Form win0 ''survey'' (ItemList [item1]) 0.03 (1, 0.7) (0, 0) 0.05 ''height'' fs0 = Inr form1
   \<and> items form1 \<noteq> [] \<and> \<not> formComplete form1
   \<and> formComplete (form1\<lparr>responses := [response1\<lparr>sl_rating := Some 1\<rparr>]\<rparr>)"
proof -
  have h: "Form win0 ''survey'' (ItemList [item1]) 0.03 (1, 0.7) (0, 0) 0.05 ''height'' fs0
             = Inr form1"
    by (rule Form_item1_eval)
  have i: "items form1 \<noteq> []" by (simp add: form1_def)
  from formComplete_iff_all_rated [of form1 win0 "''survey''" "ItemList [item1]" "0.03" "(1, 0.7)"
      "(0, 0)" "0.05" "''height''" fs0] h i
  have "\<not> formComplete form1" by blast
  moreover from formComplete_iff_all_rated
      [of "form1\<lparr>responses := [response1\<lparr>sl_rating := Some 1\<rparr>]\<rparr>"]
  have "formComplete (form1\<lparr>responses := [response1\<lparr>sl_rating := Some 1\<rparr>]\<rparr>)"
    by (simp add: getRating_def getData_def)
  ultimately show ?thesis using h i by blast
qed

text \<open>
  Claim C7, as stated, fails where two records offend in different ways: the import
  stops at the first offending record. A list whose first record has a single option and
  whose second record lacks a field fails with \<open>ValueError\<close>, although some record has
  the wrong field set; in the other order it fails with \<open>NameError\<close>, although some
  record has a single option.
\<close>

theorem importItems_error_counterexample:
  "set (keys item_nofield) \<noteq> set surveyFields
   \<and> importItems fs0 (ItemList [item_short, item_nofield]) = Inl ValueError
   \<and> optionCount item_short = Some 1
   \<and> importItems fs0 (ItemList [item_nofield, item_short]) = Inl NameError"
proof -
  have "''aOptions'' \<in> set surveyFields" "''aOptions'' \<notin> set (keys item_nofield)"
    by (simp_all add: surveyFields_def keys_def item_nofield_def)
  then have "set (keys item_nofield) \<noteq> set surveyFields" by blast
  moreover have "importItems fs0 (ItemList [item_short, item_nofield]) = Inl ValueError"
    by (simp add: model_defs item_short_def)
  moreover have "optionCount item_short = Some 1"
    by (simp add: optionCount_def item_short_def)
  moreover have "checkDict item_nofield = Inl NameError"
    using calculation(1) by (rule checkDict_NameError)
  then have "importItems fs0 (ItemList [item_nofield, item_short]) = Inl NameError"
    by simp
  ultimately show ?thesis by blast
qed

text \<open>
  Claim C7, amended. The records of an in-memory input are checked in input order, each
  first for its field set and then for the number of its options. When every record has
  exactly the required fields and more than one option, the import returns the records in
  input order. Otherwise the first offending record decides: the import fails with
  \<open>NameError\<close> (the schema error) when its field set is not the required one, and with
  \<open>ValueError\<close> (the options error) when its field set is right and it has at most
  one option. A single record is imported as the list of that record.
\<close>

theorem importItems_first_offender:
  "((\<forall>x \<in> set ds. accepted x) \<longrightarrow> importItems fs (ItemList ds) = Inr ds)
   \<and> ((\<forall>x \<in> set pre. accepted x) \<and> set (keys d) \<noteq> set surveyFields
        \<longrightarrow> importItems fs (ItemList (pre @ d # post)) = Inl NameError)
   \<and> ((\<forall>x \<in> set pre. accepted x) \<and> set (keys d) = set surveyFields
          \<and> optionCount d = Some n \<and> n \<le> 1
        \<longrightarrow> importItems fs (ItemList (pre @ d # post)) = Inl ValueError)
   \<and> importItems fs (ItemDict d) = importItems fs (ItemList [d])"
proof (intro conjI impI)
  assume "\<forall>x \<in> set ds. accepted x"
  then show "importItems fs (ItemList ds) = Inr ds" by (rule importItems_accepted)
next
  assume a: "(\<forall>x \<in> set pre. accepted x) \<and> set (keys d) \<noteq> set surveyFields"
  then have "checkDict d = Inl NameError" by (simp add: checkDict_NameError)
  with a show "importItems fs (ItemList (pre @ d # post)) = Inl NameError"
    by (simp add: check_loop_first_failure)
next
  assume a: "(\<forall>x \<in> set pre. accepted x) \<and> set (keys d) = set surveyFields
          \<and> optionCount d = Some n \<and> n \<le> 1"
  then have "checkDict d = Inl ValueError" by (simp add: checkDict_ValueError)
  with a show "importItems fs (ItemList (pre @ d # post)) = Inl ValueError"
    by (simp add: check_loop_first_failure)
next
  show "importItems fs (ItemDict d) = importItems fs (ItemList [d])"
    by (cases "checkDict d") simp_all
qed

theorem importItems_first_offender_witness:
  "accepted item1 \<and> accepted item_rv
   \<and> importItems fs0 (ItemList [item1, item_rv]) = Inr [item1, item_rv]
   \<and> set (keys item_nofield) \<noteq> set surveyFields
   \<and> importItems fs0 (ItemList ([item1] @ item_nofield # [item_short])) = Inl NameError
   \<and> set (keys item_short) = set surveyFields \<and> optionCount item_short = Some 1
   \<and> importItems fs0 (ItemList ([item1] @ item_short # [item_nofield])) = Inl ValueError"
proof -
  have a: "accepted item1" "accepted item_rv"
    by (simp_all add: accepted_def optionCount_def keys_def surveyFields_def base_defs)
  have "''aOptions'' \<in> set surveyFields" "''aOptions'' \<notin> set (keys item_nofield)"
    by (simp_all add: surveyFields_def keys_def item_nofield_def)
  then have b: "set (keys item_nofield) \<noteq> set surveyFields" by blast
  have c: "set (keys item_short) = set surveyFields" "optionCount item_short = Some 1"
    by (simp_all add: optionCount_def keys_def surveyFields_def item_short_def)
  have all2: "\<forall>x \<in> set [item1, item_rv]. accepted x" and all1: "\<forall>x \<in> set [item1]. accepted x"
    using a by simp_all
  from importItems_first_offender [of "[item1, item_rv]" fs0] all2
  have "importItems fs0 (ItemList [item1, item_rv]) = Inr [item1, item_rv]" by blast
  moreover from importItems_first_offender [of _ fs0 "[item1]" item_nofield "[item_short]"] all1 b
  have "importItems fs0 (ItemList ([item1] @ item_nofield # [item_short])) = Inl NameError"
    by blast
  moreover from importItems_first_offender [of _ fs0 "[item1]" item_short "[item_nofield]" 1]
    all1 c
  have "importItems fs0 (ItemList ([item1] @ item_short # [item_nofield])) = Inl ValueError"
    by simp
  ultimately show ?thesis using a b c by blast
qed

text \<open>
  Claim C8: the code does not do what the claim says. The text file
  \<^verbatim>\<open>notes.csv.txt\<close> exists and its extension is neither that of a csv file nor that
  of an Excel file, yet the import does not raise the \<open>TypeError\<close> of an unsupported
  format: the name contains \<^verbatim>\<open>.csv\<close>, the file is read as csv and its row is
  returned. A path that does not exist raises \<open>OSError\<close>, and an existing
  \<^verbatim>\<open>notes.txt\<close> would raise \<open>TypeError\<close>, as the claim says.
\<close>

theorem importItems_txt_file_read_as_csv:
  "path_exists fs1 ''notes.csv.txt''
   \<and> importItems fs1 (ItemPath ''notes.csv.txt'') = Inr [item1]
   \<and> importItems fs1 (ItemPath ''missing.csv'') = Inl OSError
   \<and> importItems (fs1\<lparr>path_exists := (\<lambda>p. p = ''notes.txt'')\<rparr>) (ItemPath ''notes.txt'')
       = Inl TypeError"
  by (simp add: fs1_def table1_def item1_def importTable_def dropna_def to_dicts_def
      row_dict_def split_options_def model_defs)

text \<open>
  Claim C9. For a form built from a list of items, the questions that \<open>getData\<close>
  returns are the \<open>qText\<close> entries of the items, in the order of the list. The list is
  arbitrary, so this holds for each of its permutations.
\<close>

theorem getData_questions_in_import_order:
  assumes "Form w nm (ItemList ds) th sz ps pad un fs = Inr f"
  shows "map Inr (fd_questions (getData f)) = map (\<lambda>d. getitem d ''qText'') ds"
proof -
  from Form_Inr [OF assms] obtain ds' where imp: "importItems fs (ItemList ds) = Inr ds'"
    and q: "map (\<lambda>d. getitem d ''qText'') ds' = map (\<lambda>q. Inr (ts_text q)) (questions f)"
    by blast
  from imp have "ds' = ds" by (auto simp: bind_eq_Inr)
  with q show ?thesis by (simp add: getData_def)
qed

theorem getData_questions_in_import_order_witness:
  "Form win0 ''survey'' (ItemList [item_rv, item1]) 0.03 (1, 0.2) (0, 0) 0.05 ''height'' fs0
     = Inr form2
   \<and> fd_questions (getData form2) = [PStr ''Like cake?'', PStr ''Like cats?'']"
proof -
  have h: "Form win0 ''survey'' (ItemList [item_rv, item1]) 0.03 (1, 0.2) (0, 0) 0.05 ''height'' fs0
     = Inr form2"
    by (rule Form_two_items_eval)
  from getData_questions_in_import_order [OF h]
  have "map Inr (fd_questions (getData form2)) =
          [Inr (PStr ''Like cake?''), Inr (PStr ''Like cats?'') :: error + pyval]"
    by (simp add: getitem_def item_rv_def item1_def)
  then have "fd_questions (getData form2) = [PStr ''Like cake?'', PStr ''Like cats?'']"
    by (auto simp: map_eq_Cons_conv)
  with h show ?thesis by blast
qed

text \<open>
  Claim C10. Let every record of a list pass the two checks of the import, which look at
  the field names and the number of options only, and let one record have an answer type
  other than rating, slider or choice (in any case of letters) or an answer layout other
  than \<open>'horiz'\<close> or \<open>'vert'\<close>. Then the import returns the list, and the constructor
  fails in the layout pass. When moreover the widths of all records are numbers, their
  answer types strings and the window has a non-zero size, the error is the
  \<open>UnboundLocalError\<close> of the variable that no branch has assigned.
\<close>

theorem unknown_type_or_layout_fails_in_layout:
  assumes "\<forall>x \<in> set ds. accepted x" and "d \<in> set ds"
    and "\<not> knownType d \<or> \<not> knownLayout d"
  shows "importItems fs (ItemList ds) = Inr ds
       \<and> (\<exists>e. Form w nm (ItemList ds) th sz ps pad un fs = Inl e)
       \<and> ((\<forall>x \<in> set ds. typedItem x) \<and> fst (win_size w) \<noteq> 0 \<and> snd (win_size w) \<noteq> 0
            \<longrightarrow> Form w nm (ItemList ds) th sz ps pad un fs = Inl UnboundLocalError)"
proof (intro conjI impI)
  from assms(1) show "importItems fs (ItemList ds) = Inr ds" by (rule importItems_accepted)
next
  from assms(2,3) show "\<exists>e. Form w nm (ItemList ds) th sz ps pad un fs = Inl e"
    by (rule Form_unknown_fails)
next
  assume t: "(\<forall>x \<in> set ds. typedItem x) \<and> fst (win_size w) \<noteq> 0 \<and> snd (win_size w) \<noteq> 0"
  from assms(2,3) obtain e where e: "Form w nm (ItemList ds) th sz ps pad un fs = Inl e"
    using Form_unknown_fails by blast
  from assms(1) t have "\<forall>x \<in> set ds. accepted x \<and> typedItem x" by simp
  from Form_error_unbound [OF this _ _ e] t have "e = UnboundLocalError" by simp
  with e show "Form w nm (ItemList ds) th sz ps pad un fs = Inl UnboundLocalError" by simp
qed

theorem unknown_type_or_layout_fails_in_layout_witness:
  "accepted item1 \<and> accepted item_badtype \<and> accepted item_badlayout
   \<and> \<not> knownType item_badtype \<and> \<not> knownLayout item_badlayout
   \<and> importItems fs0 (ItemList [item1, item_badtype]) = Inr [item1, item_badtype]
   \<and> Form win0 ''survey'' (ItemList [item1, item_badtype]) 0.03 (1, 0.7) (0, 0) 0.05 ''height'' fs0
       = Inl UnboundLocalError
   \<and> importItems fs0 (ItemList [item_badlayout]) = Inr [item_badlayout]
   \<and> Form win0 ''survey'' (ItemList [item_badlayout]) 0.03 (1, 0.7) (0, 0) 0.05 ''height'' fs0
       = Inl UnboundLocalError"
proof -
  have a: "accepted item1" "accepted item_badtype" "accepted item_badlayout"
    by (simp_all add: accepted_def optionCount_def keys_def surveyFields_def base_defs item_badtype_def item_badlayout_def)
  have t: "typedItem item1" "typedItem item_badtype" "typedItem item_badlayout"
    by (simp_all add: typedItem_def base_defs item_badtype_def item_badlayout_def)
  have k: "\<not> knownType item_badtype" "\<not> knownLayout item_badlayout"
    by (simp_all add: knownType_def knownLayout_def lower_char_def item_badtype_def item_badlayout_def)
  have w: "fst (win_size win0) \<noteq> 0" "snd (win_size win0) \<noteq> 0"
    by (simp_all add: win0_def)
  have s1: "\<forall>x \<in> set [item1, item_badtype]. accepted x"
    and s2: "\<forall>x \<in> set [item_badlayout]. accepted x"
    and m1: "item_badtype \<in> set [item1, item_badtype]"
    and m2: "item_badlayout \<in> set [item_badlayout]"
    using a by simp_all
  from k have b1: "\<not> knownType item_badtype \<or> \<not> knownLayout item_badtype"
    and b2: "\<not> knownType item_badlayout \<or> \<not> knownLayout item_badlayout"
    by simp_all
  from unknown_type_or_layout_fails_in_layout [OF s1 m1 b1, of fs0 win0] t w
  have "importItems fs0 (ItemList [item1, item_badtype]) = Inr [item1, item_badtype]"
    "Form win0 ''survey'' (ItemList [item1, item_badtype]) 0.03 (1, 0.7) (0, 0) 0.05 ''height'' fs0
       = Inl UnboundLocalError"
    by simp_all
  moreover from unknown_type_or_layout_fails_in_layout [OF s2 m2 b2, of fs0 win0] t w
  have "importItems fs0 (ItemList [item_badlayout]) = Inr [item_badlayout]"
    "Form win0 ''survey'' (ItemList [item_badlayout]) 0.03 (1, 0.7) (0, 0) 0.05 ''height'' fs0
       = Inl UnboundLocalError"
    by simp_all
  ultimately show ?thesis using a k by blast
qed

end
